theory Spec2Isabelle
  imports Complex_Main "HOL-Library.Log_Nat"
begin

section \<open>Session continuity of the mock-interview application\<close>

text \<open>
  The development embeds the session manager (\<open>saveInterviewSession\<close>,
  \<open>loadInterviewSession\<close>, \<open>clearInterviewSession\<close>, \<open>upgradeSessionFormat\<close>,
  \<open>getSessionStats\<close>, \<open>recoverSession\<close>), the identity handling of \<open>useAuth\<close>
  (\<open>clearUserInterviewData\<close>, the \<open>SIGNED_IN\<close> branch of the auth listener,
  \<open>checkInterviewState\<close>) and the session object that \<open>AppContent\<close> builds.

  Conventions of the embedding:
  \<^item> every call of \<open>Date.now()\<close> in the source is an \<open>int\<close> parameter of the function
    that makes the call (milliseconds), in the order of the calls;
  \<^item> \<open>sessionStorage\<close> and \<open>localStorage\<close> are explicit state, threaded through;
  \<^item> a JavaScript exception is the result \<open>Throws\<close>; \<open>try\<close>/\<open>catch\<close> is a case
    distinction on it;
  \<^item> the console and the alert dialogs are output lists of the state.
\<close>

subsection \<open>JavaScript numbers\<close>

text \<open>
  Time stamps and counts are integers and their sums and differences are exact in double
  precision, so they are \<open>int\<close>. The completion rate is a quotient followed by a product:
  both are rounded to the nearest double, ties to even. \<open>fl\<close> is that rounding for the
  normal range of doubles (53-bit significand); the exponent limits and the sign of zero
  are not modelled.
\<close>

datatype js_number = Finite rat | PosInf | NegInf | NaN

definition pow2 :: "int \<Rightarrow> rat" where
  "pow2 e = (if 0 \<le> e then 2 ^ nat e else 1 / 2 ^ nat (- e))"

definition round_half_even :: "rat \<Rightarrow> int" where
  "round_half_even r =
     (let f = \<lfloor>r\<rfloor>; d = r - of_int f
      in if d < 1 / 2 then f else if 1 / 2 < d then f + 1 else if even f then f else f + 1)"

text \<open>The exponent \<open>e\<close> with \<open>2 ^ e \<le> a < 2 ^ (e + 1)\<close>, for \<open>a > 0\<close>.\<close>

definition binade :: "rat \<Rightarrow> int" where
  "binade a =
     (let (p, q) = quotient_of a; e0 = bitlen p - bitlen q
      in if pow2 e0 \<le> a then e0 else e0 - 1)"

definition fl :: "rat \<Rightarrow> rat" where
  "fl x =
     (if x = 0 then 0
      else let a = \<bar>x\<bar>; u = pow2 (binade a - 52); m = round_half_even (a / u)
           in sgn x * of_int m * u)"

fun js_div :: "js_number \<Rightarrow> js_number \<Rightarrow> js_number" where
  "js_div NaN _ = NaN"
| "js_div _ NaN = NaN"
| "js_div (Finite a) (Finite b) =
     (if b = 0 then (if a = 0 then NaN else if 0 < a then PosInf else NegInf)
      else Finite (fl (a / b)))"
| "js_div (Finite a) _ = Finite 0"
| "js_div PosInf (Finite b) = (if 0 \<le> b then PosInf else NegInf)"
| "js_div NegInf (Finite b) = (if 0 \<le> b then NegInf else PosInf)"
| "js_div _ _ = NaN"

fun js_mul :: "js_number \<Rightarrow> js_number \<Rightarrow> js_number" where
  "js_mul NaN _ = NaN"
| "js_mul _ NaN = NaN"
| "js_mul (Finite a) (Finite b) = Finite (fl (a * b))"
| "js_mul (Finite a) PosInf = (if a = 0 then NaN else if 0 < a then PosInf else NegInf)"
| "js_mul (Finite a) NegInf = (if a = 0 then NaN else if 0 < a then NegInf else PosInf)"
| "js_mul PosInf (Finite b) = (if b = 0 then NaN else if 0 < b then PosInf else NegInf)"
| "js_mul NegInf (Finite b) = (if b = 0 then NaN else if 0 < b then NegInf else PosInf)"
| "js_mul PosInf PosInf = PosInf"
| "js_mul NegInf NegInf = PosInf"
| "js_mul _ _ = NegInf"

subsection \<open>Strings\<close>

text \<open>
  \<open>a < b\<close> on JavaScript strings compares code units from the left, a proper prefix
  being smaller. Version tags are ASCII, where a \<open>char\<close> is one code unit.
\<close>

fun str_less :: "string \<Rightarrow> string \<Rightarrow> bool" where
  "str_less [] [] = False"
| "str_less [] (y # ys) = True"
| "str_less (x # xs) [] = False"
| "str_less (x # xs) (y # ys) =
     ((of_char x :: nat) < of_char y \<or> (x = y \<and> str_less xs ys))"

subsection \<open>The session record\<close>

text \<open>
  The declaration of \<open>InterviewSession\<close> (\<open>types/interview\<close>) is not among the sources. The
  fields are those that \<open>AppContent\<close> writes and the session manager reads or adds; of a
  question only \<open>timestamp\<close> is read by the code, of the settings only \<open>questionCount\<close>.

  What the load hands on is whatever object \<open>JSON.parse\<close> made of the stored text, so
  the record stands for a JSON object in which every one of these fields may be missing
  (\<open>None\<close>, the \<open>undefined\<close> that reading the field gives); the object \<open>{}\<close> is the
  record without any field. A field that is there has a value of its declared type.
\<close>

record interview_settings =
  industry :: string
  interviewType :: string
  questionCount :: int

record interview_question =
  question :: string
  answer :: string
  timestamp :: int

record interview_metrics =
  totalResponseTime :: int
  averageResponseLength :: int
  deepDiveCount :: int

record interview_session =
  settings :: "interview_settings option"
  questions :: "interview_question list option"
  currentQuestionIndex :: "int option"
  isCompleted :: "bool option"
  startTime :: "int option"
  lastUpdated :: "int option"
  version :: "string option"
  conversationQuality :: "string option"
  coveredTopics :: "string list option"
  interviewMetrics :: "interview_metrics option"

subsection \<open>Web storage\<close>

text \<open>
  The stored texts of the model:
  \<^item> \<open>Encoded s\<close>, the JSON text of the object \<open>s\<close>: \<open>JSON.stringify\<close> of \<open>s\<close> writes it
    and \<open>JSON.parse\<close> turns it back into \<open>s\<close>;
  \<^item> \<open>Json_null\<close>, the text \<open>null\<close>, which \<open>JSON.parse\<close> turns into \<open>null\<close>;
  \<^item> \<open>Corrupt\<close>, a text, not empty, that is no JSON: \<open>JSON.parse\<close> throws a
    \<open>SyntaxError\<close> on it;
  \<^item> \<open>Empty\<close>, the empty text.
  JSON texts of other values (numbers, strings, booleans, arrays, objects with a field of
  another type than the declared one) have no counterpart here.

  \<open>setItem\<close> is the one storage call that can throw: \<open>refuses\<close> gives the exception with
  which a store rejects a write (\<open>DOMException\<close> with legacy code 22 is
  \<open>QuotaExceededError\<close>), \<open>None\<close> when it accepts it.
\<close>

type_synonym key = string

datatype js_error = DOMException nat | SyntaxError | TypeError

datatype entry = Encoded interview_session | Json_null | Corrupt | Empty

record store =
  items :: "key \<Rightarrow> entry option"
  refuses :: "key \<Rightarrow> entry \<Rightarrow> js_error option"

definition getItem :: "store \<Rightarrow> key \<Rightarrow> entry option" where
  "getItem st k = items st k"

definition setItem :: "store \<Rightarrow> key \<Rightarrow> entry \<Rightarrow> js_error + store" where
  "setItem st k v =
     (case refuses st k v of
        Some e \<Rightarrow> Inl e
      | None \<Rightarrow> Inr (st\<lparr>items := (items st)(k \<mapsto> v)\<rparr>))"

definition removeItem :: "store \<Rightarrow> key \<Rightarrow> store" where
  "removeItem st k = st\<lparr>items := (items st)(k := None)\<rparr>"

text \<open>A string is falsy exactly when it is empty.\<close>

fun truthy :: "entry \<Rightarrow> bool" where
  "truthy (Encoded s) = True"
| "truthy Json_null = True"
| "truthy Corrupt = True"
| "truthy Empty = False"

text \<open>The value of \<open>JSON.parse\<close>, \<open>None\<close> being \<open>null\<close>.\<close>

fun JSON_parse :: "entry \<Rightarrow> js_error + interview_session option" where
  "JSON_parse (Encoded s) = Inr (Some s)"
| "JSON_parse Json_null = Inr None"
| "JSON_parse Corrupt = Inl SyntaxError"
| "JSON_parse Empty = Inl SyntaxError"

text \<open>The expression \<open>saved ? JSON.parse(saved) : null\<close>.\<close>

definition parse_saved :: "entry option \<Rightarrow> js_error + interview_session option" where
  "parse_saved saved =
     (case saved of
        None \<Rightarrow> Inr None
      | Some e \<Rightarrow>
          (if truthy e then JSON_parse e else Inr None))"

subsection \<open>The browser state\<close>

datatype console_line = Info string | Failure string js_error

datatype dialog = Storage_full_alert

text \<open>
  \<open>currentUserId\<close> is the item of \<open>localStorage\<close> under the key \<open>'currentUserId'\<close>: it
  holds an identity, not a session, and the code reads and writes it as a string. The
  \<open>items\<close> of \<open>localStorage\<close> are the items under all other keys.
  \<open>refuses_identity\<close> gives the exception with which \<open>localStorage\<close> rejects the write
  of an identity under that key, \<open>None\<close> when it accepts it.
\<close>

record world =
  sessionStorage :: store
  localStorage :: store
  currentUserId :: "string option"
  refuses_identity :: "string \<Rightarrow> js_error option"
  console :: "console_line list"
  alerts :: "dialog list"

datatype 'a completion = Returns 'a world | Throws js_error world

text \<open>
  What a call returned, if it returned, what it threw, if it threw, and the state in which
  it ended.
\<close>

fun returned :: "'a completion \<Rightarrow> 'a option" where
  "returned (Returns r w) = Some r"
| "returned (Throws e w) = None"

fun thrown :: "'a completion \<Rightarrow> js_error option" where
  "thrown (Returns r w) = None"
| "thrown (Throws e w) = Some e"

fun final :: "'a completion \<Rightarrow> world" where
  "final (Returns r w) = w"
| "final (Throws e w) = w"

definition console_log :: "string \<Rightarrow> world \<Rightarrow> world" where
  "console_log msg w = w\<lparr>console := console w @ [Info msg]\<rparr>"

definition console_error :: "string \<Rightarrow> js_error \<Rightarrow> world \<Rightarrow> world" where
  "console_error msg e w = w\<lparr>console := console w @ [Failure msg e]\<rparr>"

definition alert :: "dialog \<Rightarrow> world \<Rightarrow> world" where
  "alert d w = w\<lparr>alerts := alerts w @ [d]\<rparr>"

subsection \<open>The session manager\<close>

definition SESSION_KEY :: key where
  "SESSION_KEY = ''interviewSession''"

definition BACKUP_KEY :: key where
  "BACKUP_KEY = ''interviewSessionBackup''"

definition SESSION_TIMEOUT :: int where
  "SESSION_TIMEOUT = 2 * 60 * 60 * 1000"

text \<open>The object \<open>{...session, lastUpdated: Date.now(), version: '2.0'}\<close>.\<close>

definition sessionWithTimestamp :: "int \<Rightarrow> interview_session \<Rightarrow> interview_session" where
  "sessionWithTimestamp now session = session\<lparr>lastUpdated := Some now, version := Some ''2.0''\<rparr>"

definition save_try :: "int \<Rightarrow> interview_session \<Rightarrow> world \<Rightarrow> unit completion" where
  "save_try now session w =
     (let stamped = sessionWithTimestamp now session
      in case setItem (sessionStorage w) SESSION_KEY (Encoded stamped) of
           Inl e \<Rightarrow> Throws e w
         | Inr ss \<Rightarrow>
             (let w1 = w\<lparr>sessionStorage := ss\<rparr>
              in case setItem (localStorage w1) BACKUP_KEY (Encoded stamped) of
                   Inl e \<Rightarrow> Throws e w1
                 | Inr ls \<Rightarrow>
                     Returns () (console_log ''Session saved successfully:''
                                   (w1\<lparr>localStorage := ls\<rparr>))))"

definition save_catch :: "js_error \<Rightarrow> world \<Rightarrow> world" where
  "save_catch error w =
     (let w1 = console_error ''Failed to save session:'' error w
      in case error of
           DOMException code \<Rightarrow> (if code = 22 then alert Storage_full_alert w1 else w1)
         | _ \<Rightarrow> w1)"

definition saveInterviewSession :: "int \<Rightarrow> interview_session \<Rightarrow> world \<Rightarrow> unit completion" where
  "saveInterviewSession now session w =
     (case save_try now session w of
        Returns u w' \<Rightarrow> Returns u w'
      | Throws error w' \<Rightarrow> Returns () (save_catch error w'))"

text \<open>Neither \<open>removeItem\<close> can throw, so the handler of the source is never entered.\<close>

definition clearInterviewSession :: "world \<Rightarrow> world" where
  "clearInterviewSession w =
     console_log ''Session cleared successfully''
       (w\<lparr>sessionStorage := removeItem (sessionStorage w) SESSION_KEY,
          localStorage := removeItem (localStorage w) BACKUP_KEY\<rparr>)"

definition upgradeSessionFormat ::
  "int \<Rightarrow> 'a interview_session_scheme \<Rightarrow> 'a interview_session_scheme" where
  "upgradeSessionFormat now oldSession =
     oldSession\<lparr>version := Some ''2.0'',
                lastUpdated := Some now,
                conversationQuality := Some ''moderate'',
                coveredTopics := Some [],
                interviewMetrics :=
                  Some \<lparr>totalResponseTime = 0, averageResponseLength = 0, deepDiveCount = 0\<rparr>\<rparr>"

text \<open>The test \<open>!session.version || session.version < '2.0'\<close>.\<close>

definition needs_upgrade :: "'a interview_session_scheme \<Rightarrow> bool" where
  "needs_upgrade session =
     (case version session of
        None \<Rightarrow> True
      | Some v \<Rightarrow> v = [] \<or> str_less v ''2.0'')"

text \<open>
  The version check of \<open>loadInterviewSession\<close> (the \<open>if\<close> around the call of
  \<open>upgradeSessionFormat\<close>) as a function of the record: the record with which the load
  continues.
\<close>

definition upgrade :: "int \<Rightarrow> 'a interview_session_scheme \<Rightarrow> 'a interview_session_scheme" where
  "upgrade now session =
     (if needs_upgrade session then upgradeSessionFormat now session else session)"

text \<open>
  The expression \<open>session.lastUpdated || session.startTime\<close>: a missing field and zero
  are falsy. The value is \<open>undefined\<close> (\<open>None\<close>) when \<open>startTime\<close> is taken and is
  missing.
\<close>

definition last_activity :: "'a interview_session_scheme \<Rightarrow> int option" where
  "last_activity session =
     (case lastUpdated session of
        None \<Rightarrow> startTime session
      | Some t \<Rightarrow> if t = 0 then startTime session else Some t)"

text \<open>
  The test \<open>now - lastUpdated > SESSION_TIMEOUT\<close>: with \<open>undefined\<close> the difference is
  \<open>NaN\<close>, which is not greater than any number.
\<close>

definition expired :: "int \<Rightarrow> 'a interview_session_scheme \<Rightarrow> bool" where
  "expired now session =
     (case last_activity session of
        None \<Rightarrow> False
      | Some t \<Rightarrow> now - t > SESSION_TIMEOUT)"

text \<open>The first part of the \<open>try\<close> block: the primary copy, else the backup, restored.\<close>

definition fetch_session :: "world \<Rightarrow> interview_session option completion" where
  "fetch_session w =
     (case parse_saved (getItem (sessionStorage w) SESSION_KEY) of
        Inl e \<Rightarrow> Throws e w
      | Inr (Some s) \<Rightarrow> Returns (Some s) w
      | Inr None \<Rightarrow>
          (case parse_saved (getItem (localStorage w) BACKUP_KEY) of
             Inl e \<Rightarrow> Throws e w
           | Inr None \<Rightarrow> Returns None w
           | Inr (Some s) \<Rightarrow>
               (let w1 = console_log ''Session restored from backup'' w
                in case setItem (sessionStorage w1) SESSION_KEY (Encoded s) of
                     Inl e \<Rightarrow> Throws e w1
                   | Inr ss \<Rightarrow> Returns (Some s) (w1\<lparr>sessionStorage := ss\<rparr>))))"

definition load_try :: "int \<Rightarrow> int \<Rightarrow> int \<Rightarrow> world \<Rightarrow> interview_session option completion" where
  "load_try now now_upgrade now_save w =
     (case fetch_session w of
        Throws e w' \<Rightarrow> Throws e w'
      | Returns None w' \<Rightarrow> Returns None w'
      | Returns (Some session) w' \<Rightarrow>
          (if expired now session
           then Returns None
                  (clearInterviewSession (console_log ''Session expired, clearing data'' w'))
           else if needs_upgrade session
           then (let upgraded = upgradeSessionFormat now_upgrade session
                 in case saveInterviewSession now_save upgraded
                           (console_log ''Upgrading session to version 2.0'' w') of
                      Throws e w2 \<Rightarrow> Throws e w2
                    | Returns _ w2 \<Rightarrow>
                        Returns (Some upgraded)
                          (console_log ''Session loaded successfully:'' w2))
           else Returns (Some session) (console_log ''Session loaded successfully:'' w')))"

definition loadInterviewSession ::
  "int \<Rightarrow> int \<Rightarrow> int \<Rightarrow> world \<Rightarrow> interview_session option completion" where
  "loadInterviewSession now now_upgrade now_save w =
     (case load_try now now_upgrade now_save w of
        Returns r w' \<Rightarrow> Returns r w'
      | Throws error w' \<Rightarrow>
          Returns None (clearInterviewSession (console_error ''Failed to load session:'' error w')))"

text \<open>
  The result object of \<open>getSessionStats\<close>; its field \<open>questionCount\<close> is
  \<open>stats_questionCount\<close> here, the name being taken by the settings. The age is a
  JavaScript number: \<open>now - session.startTime\<close> is \<open>NaN\<close> without a \<open>startTime\<close>.
\<close>

record session_stats =
  hasActiveSession :: bool
  sessionAge :: js_number
  stats_questionCount :: nat
  completionRate :: js_number

text \<open>
  The function has no \<open>try\<close>: reading \<open>length\<close> of a missing \<open>questions\<close> or
  \<open>questionCount\<close> of a missing \<open>settings\<close> throws a \<open>TypeError\<close> to the caller.
\<close>

definition getSessionStats ::
  "int \<Rightarrow> int \<Rightarrow> int \<Rightarrow> int \<Rightarrow> world \<Rightarrow> session_stats completion" where
  "getSessionStats now_load now_upgrade now_save now w =
     (case loadInterviewSession now_load now_upgrade now_save w of
        Throws e w' \<Rightarrow> Throws e w'
      | Returns None w' \<Rightarrow>
          Returns \<lparr>hasActiveSession = False, sessionAge = Finite 0, stats_questionCount = 0,
                   completionRate = Finite 0\<rparr> w'
      | Returns (Some session) w' \<Rightarrow>
          (let age = (case startTime session of
                        None \<Rightarrow> NaN
                      | Some t \<Rightarrow> Finite (of_int (now - t)))
           in case questions session of
                None \<Rightarrow> Throws TypeError w'
              | Some qs \<Rightarrow>
                  (let count = length qs
                   in case settings session of
                        None \<Rightarrow> Throws TypeError w'
                      | Some st \<Rightarrow>
                          (let rate = js_mul (js_div (Finite (of_nat count))
                                                     (Finite (of_int (questionCount st))))
                                             (Finite 100)
                           in Returns \<lparr>hasActiveSession = True, sessionAge = age,
                                       stats_questionCount = count,
                                       completionRate = rate\<rparr> w'))))"

definition recover_try :: "world \<Rightarrow> interview_session option completion" where
  "recover_try w =
     (case getItem (localStorage w) BACKUP_KEY of
        None \<Rightarrow> Returns None w
      | Some backup \<Rightarrow>
          (if truthy backup
           then (case JSON_parse backup of
                   Inl e \<Rightarrow> Throws e w
                 | Inr session \<Rightarrow>
                     (let w1 = console_log ''Attempting session recovery:'' w
                      in case setItem (sessionStorage w1) SESSION_KEY backup of
                           Inl e \<Rightarrow> Throws e w1
                         | Inr ss \<Rightarrow> Returns session (w1\<lparr>sessionStorage := ss\<rparr>)))
           else Returns None w))"

definition recoverSession :: "world \<Rightarrow> interview_session option completion" where
  "recoverSession w =
     (case recover_try w of
        Returns r w' \<Rightarrow> Returns r w'
      | Throws error w' \<Rightarrow> Returns None (console_error ''Failed to recover session:'' error w'))"

subsection \<open>The session that the application saves\<close>

text \<open>
  The object literal of \<open>AppContent\<close>, from the settings and the questions of the
  component's state. \<open>interviewQuestions[0]?.timestamp || Date.now()\<close> is the time stamp
  of the first question unless there is none or it is zero.
\<close>

definition app_session ::
  "interview_settings \<Rightarrow> interview_question list \<Rightarrow> int \<Rightarrow> int \<Rightarrow> interview_session" where
  "app_session interviewSettings interviewQuestions now_start now_updated =
     \<lparr>settings = Some interviewSettings,
      questions = Some interviewQuestions,
      currentQuestionIndex = Some (int (length interviewQuestions) - 1),
      isCompleted = Some False,
      startTime =
        Some (case interviewQuestions of
                [] \<Rightarrow> now_start
              | q # _ \<Rightarrow> if timestamp q = 0 then now_start else timestamp q),
      lastUpdated = Some now_updated,
      version = Some ''3.0'',
      conversationQuality = None,
      coveredTopics = None,
      interviewMetrics = None\<rparr>"

subsection \<open>Identities\<close>

definition interviewKeys :: "string \<Rightarrow> key list" where
  "interviewKeys userId =
     [''interview_'' @ userId @ ''_session'',
      ''interview_'' @ userId @ ''_backup'',
      ''interviewSession'',
      ''interviewSessionBackup'']"

text \<open>
  None of these keys is \<open>'currentUserId'\<close>, so both removals act on the \<open>items\<close>.
\<close>

definition remove_key :: "key \<Rightarrow> world \<Rightarrow> world" where
  "remove_key k w =
     w\<lparr>localStorage := removeItem (localStorage w) k,
       sessionStorage := removeItem (sessionStorage w) k\<rparr>"

definition clearUserInterviewData :: "string \<Rightarrow> world \<Rightarrow> world" where
  "clearUserInterviewData userId w =
     console_log ''Cleared interview data for user:''
       (fold remove_key (interviewKeys userId) w)"

text \<open>
  The listener of \<open>onAuthStateChange\<close> for the event \<open>SIGNED_IN\<close> with a session of the
  user \<open>userId\<close>, up to the write of the remembered identity. The URL fragment and the
  React state that the listener also sets are not storage and are left out.
\<close>

definition signed_in :: "string \<Rightarrow> world \<Rightarrow> unit completion" where
  "signed_in userId w =
     (let w0 = console_log ''Auth state changed:'' w;
          w1 = (case currentUserId w0 of
                  None \<Rightarrow> w0
                | Some previousUserId \<Rightarrow>
                    (if previousUserId \<noteq> [] \<and> previousUserId \<noteq> userId
                     then clearUserInterviewData previousUserId
                            (console_log ''User switched, clearing previous user data'' w0)
                     else w0))
      in case refuses_identity w1 userId of
           Some e \<Rightarrow> Throws e w1
         | None \<Rightarrow> Returns () (w1\<lparr>currentUserId := Some userId\<rparr>))"

text \<open>The expression \<open>sessionStorage.getItem(sessionKey) || localStorage.getItem(backupKey)\<close>.\<close>

definition first_truthy :: "entry option \<Rightarrow> entry option \<Rightarrow> entry option" where
  "first_truthy a b = (case a of None \<Rightarrow> b | Some e \<Rightarrow> if truthy e then Some e else b)"

definition checkInterviewState :: "string \<Rightarrow> world \<Rightarrow> bool" where
  "checkInterviewState userId w =
     (if userId = [] then False
      else let sessionKey = ''interview_'' @ userId @ ''_session'';
               backupKey = ''interview_'' @ userId @ ''_backup'';
               sessionData = first_truthy (getItem (sessionStorage w) sessionKey)
                                          (getItem (localStorage w) backupKey)
           in (case sessionData of None \<Rightarrow> False | Some e \<Rightarrow> truthy e))"

text \<open>
  The states in which the stores hold nothing but what \<open>saveInterviewSession\<close> wrote:
  empty stores, and any number of saves after that.
\<close>

inductive written_by_save :: "world \<Rightarrow> bool" where
  fresh: "items (sessionStorage w) = Map.empty \<Longrightarrow> items (localStorage w) = Map.empty
          \<Longrightarrow> written_by_save w"
| saved: "written_by_save w \<Longrightarrow> saveInterviewSession now session w = Returns u w'
          \<Longrightarrow> written_by_save w'"

subsection \<open>Sample data\<close>

definition example_settings :: interview_settings where
  "example_settings = \<lparr>industry = ''IT'', interviewType = ''general'', questionCount = 5\<rparr>"

definition example_question :: "int \<Rightarrow> interview_question" where
  "example_question t = \<lparr>question = ''Q'', answer = ''A'', timestamp = t\<rparr>"

text \<open>A record of an old format that nevertheless carries two of the newer fields.\<close>

definition legacy_session :: interview_session where
  "legacy_session =
     \<lparr>settings = Some example_settings,
      questions = Some [example_question 1000, example_question 2000],
      currentQuestionIndex = Some 1,
      isCompleted = Some False,
      startTime = Some 1000,
      lastUpdated = Some 5000,
      version = None,
      conversationQuality = Some ''deep'',
      coveredTopics = None,
      interviewMetrics = None\<rparr>"

definition current_session :: interview_session where
  "current_session = legacy_session\<lparr>version := Some ''3.0''\<rparr>"

definition empty_store :: store where
  "empty_store = \<lparr>items = Map.empty, refuses = (\<lambda>k v. None)\<rparr>"

text \<open>A store that is over its quota: every write fails with \<open>QuotaExceededError\<close>.\<close>

definition full_store :: store where
  "full_store = \<lparr>items = Map.empty, refuses = (\<lambda>k v. Some (DOMException 22))\<rparr>"

definition empty_world :: world where
  "empty_world =
     \<lparr>sessionStorage = empty_store, localStorage = empty_store, currentUserId = None,
      refuses_identity = (\<lambda>t. None), console = [], alerts = []\<rparr>"

text \<open>States in which one store holds a record under its session key.\<close>

definition world_with_primary :: "interview_session \<Rightarrow> world" where
  "world_with_primary r =
     empty_world\<lparr>sessionStorage := empty_store\<lparr>items := [SESSION_KEY \<mapsto> Encoded r]\<rparr>\<rparr>"

definition world_with_backup :: "interview_session \<Rightarrow> world" where
  "world_with_backup r =
     empty_world\<lparr>localStorage := empty_store\<lparr>items := [BACKUP_KEY \<mapsto> Encoded r]\<rparr>\<rparr>"

text \<open>The object \<open>{}\<close>.\<close>

definition empty_object :: interview_session where
  "empty_object =
     \<lparr>settings = None, questions = None, currentQuestionIndex = None, isCompleted = None,
      startTime = None, lastUpdated = None, version = None, conversationQuality = None,
      coveredTopics = None, interviewMetrics = None\<rparr>"


text \<open>A record with one question answered out of three.\<close>

definition one_of_three :: interview_session where
  "one_of_three =
     current_session\<lparr>settings := Some (example_settings\<lparr>questionCount := 3\<rparr>),
                      questions := Some [example_question 1000]\<rparr>"

text \<open>
  A state in which \<open>user-a\<close> is the remembered identity and both stores hold a session
  under the unscoped and under the identity-scoped keys.
\<close>

definition world_of_user_a :: world where
  "world_of_user_a =
     empty_world
       \<lparr>sessionStorage := empty_store
          \<lparr>items := [''interviewSession'' \<mapsto> Encoded current_session,
                      ''interview_user-a_session'' \<mapsto> Encoded current_session]\<rparr>,
        localStorage := empty_store
          \<lparr>items := [''interviewSessionBackup'' \<mapsto> Encoded current_session,
                      ''interview_user-a_backup'' \<mapsto> Encoded current_session]\<rparr>,
        currentUserId := Some ''user-a''\<rparr>"

section \<open>Properties\<close>

subsection \<open>Rounding\<close>

text \<open>
  The rounding agrees with the doubles of some familiar fractions: \<open>1 / 3\<close> is
  \<open>0x3FD5555555555555\<close>, \<open>1 / 10\<close> is \<open>0x3FB999999999999A\<close>, and an integer is
  its own double.
\<close>

lemma fl_examples:
  "fl 1 = 1"
  "fl 100 = 100"
  "fl (1 / 3) = 6004799503160661 / 2 ^ 54"
  "fl (1 / 10) = 3602879701896397 / 2 ^ 55"
  "fl (- (1 / 3)) = - (6004799503160661 / 2 ^ 54)"
  by code_simp+

subsection \<open>The schema upgrade\<close>

lemma needs_upgrade_upgradeSessionFormat: "\<not> needs_upgrade (upgradeSessionFormat now r)"
  by (simp add: needs_upgrade_def upgradeSessionFormat_def)

text \<open>
  C6. The schema upgrade is idempotent: upgrading an upgraded record changes nothing,
  whatever the two upgrade times are, and a record whose version is at least \<open>'2.0'\<close> is
  returned as it is.
\<close>

theorem upgrade_idempotent:
  "upgrade t2 (upgrade t1 r) = upgrade t1 r \<and>
   (\<forall>v. version r = Some v \<and> \<not> str_less v ''2.0'' \<longrightarrow> upgrade t1 r = r)"
proof
  show "upgrade t2 (upgrade t1 r) = upgrade t1 r"
    by (simp add: upgrade_def needs_upgrade_upgradeSessionFormat)
  show "\<forall>v. version r = Some v \<and> \<not> str_less v ''2.0'' \<longrightarrow> upgrade t1 r = r"
    by (auto simp add: upgrade_def needs_upgrade_def)
qed

theorem upgrade_idempotent_witness:
  "upgrade 9000 (upgrade 7000 legacy_session) = upgrade 7000 legacy_session \<and>
   version current_session = Some ''3.0'' \<and> \<not> str_less ''3.0'' ''2.0'' \<and>
   upgrade 7000 current_session = current_session"
  using upgrade_idempotent [of 9000 7000 legacy_session]
    upgrade_idempotent [of 9000 7000 current_session]
  by (simp add: current_session_def)

text \<open>
  C4, as the claim states it, fails: a record without a version that already has a
  \<open>lastUpdated\<close> and a \<open>conversationQuality\<close> loses both values in the upgrade.
\<close>

theorem upgrade_overwrites_counterexample:
  "lastUpdated legacy_session = Some 5000 \<and>
   lastUpdated (upgrade 7000 legacy_session) = Some 7000 \<and>
   conversationQuality legacy_session = Some ''deep'' \<and>
   conversationQuality (upgrade 7000 legacy_session) = Some ''moderate''"
  by (simp add: upgrade_def needs_upgrade_def upgradeSessionFormat_def legacy_session_def)

text \<open>
  C4, amended. The schema upgrade preserves every field of a record other than
  \<open>version\<close>, \<open>lastUpdated\<close>, \<open>conversationQuality\<close>, \<open>coveredTopics\<close> and
  \<open>interviewMetrics\<close>: the settings, the questions, the current index, the completion
  flag, the start time and any further field keep their values. A record that is upgraded
  gets the version \<open>'2.0'\<close> and the upgrade time as \<open>lastUpdated\<close>; a record that needs
  no upgrade is returned unchanged.
\<close>

theorem upgrade_preserves_other_fields:
  "settings (upgrade now r) = settings r \<and>
   questions (upgrade now r) = questions r \<and>
   currentQuestionIndex (upgrade now r) = currentQuestionIndex r \<and>
   isCompleted (upgrade now r) = isCompleted r \<and>
   startTime (upgrade now r) = startTime r \<and>
   interview_session.more (upgrade now r) = interview_session.more r \<and>
   (needs_upgrade r \<longrightarrow>
      version (upgrade now r) = Some ''2.0'' \<and> lastUpdated (upgrade now r) = Some now) \<and>
   (\<not> needs_upgrade r \<longrightarrow> upgrade now r = r)"
  by (simp add: upgrade_def upgradeSessionFormat_def)

theorem upgrade_preserves_other_fields_witness:
  "needs_upgrade legacy_session \<and> \<not> needs_upgrade current_session \<and>
   startTime (upgrade 7000 legacy_session) = Some 1000 \<and>
   version (upgrade 7000 legacy_session) = Some ''2.0'' \<and>
   upgrade 7000 current_session = current_session"
  using upgrade_preserves_other_fields [of 7000 legacy_session]
    upgrade_preserves_other_fields [of 7000 current_session]
  by (simp add: needs_upgrade_def legacy_session_def current_session_def)

subsection \<open>Saving\<close>

lemma returned_save [simp]: "returned (saveInterviewSession now s w) = Some ()"
  by (simp add: saveInterviewSession_def split: completion.splits)

lemma save_Returns:
  "saveInterviewSession now s w = Returns () (final (saveInterviewSession now s w))"
  using returned_save [of now s w]
  by (cases "saveInterviewSession now s w") simp_all

text \<open>The \<open>try\<close> block of the save, by the answers of the two stores.\<close>

lemma save_try_cases:
  "save_try now s w =
     (let v = Encoded (sessionWithTimestamp now s) in
      case refuses (sessionStorage w) SESSION_KEY v of
        Some e \<Rightarrow> Throws e w
      | None \<Rightarrow>
         (case refuses (localStorage w) BACKUP_KEY v of
            Some e \<Rightarrow>
              Throws e (w\<lparr>sessionStorage :=
                (sessionStorage w)\<lparr>items := (items (sessionStorage w))(SESSION_KEY \<mapsto> v)\<rparr>\<rparr>)
          | None \<Rightarrow>
              Returns () (console_log ''Session saved successfully:''
               (w\<lparr>sessionStorage :=
                    (sessionStorage w)\<lparr>items := (items (sessionStorage w))(SESSION_KEY \<mapsto> v)\<rparr>,
                  localStorage :=
                    (localStorage w)\<lparr>items := (items (localStorage w))(BACKUP_KEY \<mapsto> v)\<rparr>\<rparr>))))"
  by (simp add: save_try_def setItem_def Let_def split: option.splits)

lemma alerts_save_catch:
  "alerts (save_catch e w) =
     (if e = DOMException 22 then alerts w @ [Storage_full_alert] else alerts w)"
  by (simp add: save_catch_def console_error_def alert_def Let_def split: js_error.splits)

text \<open>
  C7. \<open>saveInterviewSession\<close> returns normally whatever the stores answer to its two
  writes. It shows the storage warning exactly when the write that fails (the first, or
  the second after the first went through) fails with \<open>DOMException\<close> code 22; in every
  other case, success or any other error, no dialog is shown.
\<close>

theorem save_never_raises:
  "returned (saveInterviewSession now s w) = Some () \<and>
   alerts (final (saveInterviewSession now s w)) =
     (if refuses (sessionStorage w) SESSION_KEY (Encoded (sessionWithTimestamp now s))
           = Some (DOMException 22)
         \<or> (refuses (sessionStorage w) SESSION_KEY (Encoded (sessionWithTimestamp now s)) = None
            \<and> refuses (localStorage w) BACKUP_KEY (Encoded (sessionWithTimestamp now s))
                = Some (DOMException 22))
      then alerts w @ [Storage_full_alert]
      else alerts w)"
proof
  show "returned (saveInterviewSession now s w) = Some ()"
    by simp
  show "alerts (final (saveInterviewSession now s w)) =
     (if refuses (sessionStorage w) SESSION_KEY (Encoded (sessionWithTimestamp now s))
           = Some (DOMException 22)
         \<or> (refuses (sessionStorage w) SESSION_KEY (Encoded (sessionWithTimestamp now s)) = None
            \<and> refuses (localStorage w) BACKUP_KEY (Encoded (sessionWithTimestamp now s))
                = Some (DOMException 22))
      then alerts w @ [Storage_full_alert]
      else alerts w)"
    by (auto simp add: saveInterviewSession_def save_try_cases Let_def alerts_save_catch
          console_log_def split: option.splits)
qed

theorem save_never_raises_witness:
  "returned (saveInterviewSession 7000 current_session
      (empty_world\<lparr>sessionStorage := full_store\<rparr>)) = Some () \<and>
   alerts (final (saveInterviewSession 7000 current_session
      (empty_world\<lparr>sessionStorage := full_store\<rparr>))) = [Storage_full_alert] \<and>
   alerts (final (saveInterviewSession 7000 current_session
      (empty_world\<lparr>sessionStorage := empty_store\<lparr>refuses := (\<lambda>k v. Some TypeError)\<rparr>\<rparr>))) = []"
  using save_never_raises [of 7000 current_session "empty_world\<lparr>sessionStorage := full_store\<rparr>"]
    save_never_raises [of 7000 current_session
      "empty_world\<lparr>sessionStorage := empty_store\<lparr>refuses := (\<lambda>k v. Some TypeError)\<rparr>\<rparr>"]
  by (simp add: empty_world_def full_store_def empty_store_def)

lemma final_save_session_item:
  "getItem (sessionStorage (final (saveInterviewSession now s w))) k =
     (if k = SESSION_KEY \<and> refuses (sessionStorage w) SESSION_KEY (Encoded (sessionWithTimestamp now s)) = None
      then Some (Encoded (sessionWithTimestamp now s))
      else getItem (sessionStorage w) k)"
  by (simp add: saveInterviewSession_def save_try_cases Let_def getItem_def save_catch_def
        console_log_def console_error_def alert_def split: option.splits js_error.splits)

lemma final_save_local_item:
  "getItem (localStorage (final (saveInterviewSession now s w))) k =
     (if k = BACKUP_KEY \<and> refuses (sessionStorage w) SESSION_KEY (Encoded (sessionWithTimestamp now s)) = None
         \<and> refuses (localStorage w) BACKUP_KEY (Encoded (sessionWithTimestamp now s)) = None
      then Some (Encoded (sessionWithTimestamp now s))
      else getItem (localStorage w) k)"
  by (simp add: saveInterviewSession_def save_try_cases Let_def getItem_def save_catch_def
        console_log_def console_error_def alert_def split: option.splits js_error.splits)

lemma final_save_refuses [simp]:
  "refuses (sessionStorage (final (saveInterviewSession now s w))) = refuses (sessionStorage w)"
  "refuses (localStorage (final (saveInterviewSession now s w))) = refuses (localStorage w)"
  "currentUserId (final (saveInterviewSession now s w)) = currentUserId w"
  by (simp_all add: saveInterviewSession_def save_try_cases Let_def getItem_def save_catch_def
        console_log_def console_error_def alert_def split: option.splits js_error.splits)

lemma written_by_save_versions:
  "written_by_save w \<Longrightarrow>
     (\<forall>r. getItem (sessionStorage w) SESSION_KEY = Some (Encoded r) \<longrightarrow>
          version r = Some ''2.0'') \<and>
     (\<forall>r. getItem (localStorage w) BACKUP_KEY = Some (Encoded r) \<longrightarrow>
          version r = Some ''2.0'')"
proof (induction rule: written_by_save.induct)
  case (fresh w)
  then show ?case by (simp add: getItem_def)
next
  case (saved w now session u w')
  from saved.hyps(2) have w': "w' = final (saveInterviewSession now session w)"
    by simp
  have v: "version (sessionWithTimestamp now session) = Some ''2.0''"
    by (simp add: sessionWithTimestamp_def)
  show ?case
    unfolding w' using saved.IH v
    by (auto simp add: final_save_session_item final_save_local_item split: if_splits)
qed

text \<open>
  C9. Whatever version and \<open>lastUpdated\<close> a session carries, the text that
  \<open>saveInterviewSession\<close> writes is the session with \<open>version\<close> set to \<open>'2.0'\<close> and
  \<open>lastUpdated\<close> set to the time of the save. After the save each of the two keys holds
  that text or, where a write was refused or not reached, what it held before; where the
  stores accept the writes both hold it. In particular a session built by the application
  with version \<open>'3.0'\<close> is stored with version \<open>'2.0'\<close>; and in a state whose stores hold
  only what saves have written, a further save leaves no stored record with a version
  other than \<open>'2.0'\<close>, hence none above it.
\<close>

theorem save_stamps_version:
  "version (sessionWithTimestamp now s) = Some ''2.0'' \<and>
   lastUpdated (sessionWithTimestamp now s) = Some now \<and>
   sessionWithTimestamp now s = s\<lparr>lastUpdated := Some now, version := Some ''2.0''\<rparr> \<and>
   (getItem (sessionStorage (final (saveInterviewSession now s w))) SESSION_KEY
      = Some (Encoded (sessionWithTimestamp now s))
    \<or> getItem (sessionStorage (final (saveInterviewSession now s w))) SESSION_KEY
      = getItem (sessionStorage w) SESSION_KEY) \<and>
   (getItem (localStorage (final (saveInterviewSession now s w))) BACKUP_KEY
      = Some (Encoded (sessionWithTimestamp now s))
    \<or> getItem (localStorage (final (saveInterviewSession now s w))) BACKUP_KEY
      = getItem (localStorage w) BACKUP_KEY) \<and>
   (refuses (sessionStorage w) SESSION_KEY (Encoded (sessionWithTimestamp now s)) = None \<longrightarrow>
      getItem (sessionStorage (final (saveInterviewSession now s w))) SESSION_KEY
        = Some (Encoded (sessionWithTimestamp now s))) \<and>
   (refuses (sessionStorage w) SESSION_KEY (Encoded (sessionWithTimestamp now s)) = None \<and>
    refuses (localStorage w) BACKUP_KEY (Encoded (sessionWithTimestamp now s)) = None \<longrightarrow>
      getItem (localStorage (final (saveInterviewSession now s w))) BACKUP_KEY
        = Some (Encoded (sessionWithTimestamp now s))) \<and>
   (written_by_save w \<longrightarrow>
      (\<forall>r. getItem (sessionStorage (final (saveInterviewSession now s w))) SESSION_KEY
             = Some (Encoded r) \<longrightarrow>
           version r = Some ''2.0'' \<and> \<not> str_less ''2.0'' (the (version r))) \<and>
      (\<forall>r. getItem (localStorage (final (saveInterviewSession now s w))) BACKUP_KEY
             = Some (Encoded r) \<longrightarrow>
           version r = Some ''2.0'' \<and> \<not> str_less ''2.0'' (the (version r))))"
proof -
  have inv: "written_by_save (final (saveInterviewSession now s w))" if "written_by_save w"
    using that save_Returns by (rule written_by_save.saved)
  show ?thesis
    using written_by_save_versions [OF inv]
    by (simp add: final_save_session_item final_save_local_item sessionWithTimestamp_def)
qed

theorem save_stamps_version_witness:
  "version (app_session example_settings [example_question 1000] 6000 6001) = Some ''3.0'' \<and>
   getItem (sessionStorage (final (saveInterviewSession 7000
       (app_session example_settings [example_question 1000] 6000 6001) empty_world))) SESSION_KEY
     = Some (Encoded ((app_session example_settings [example_question 1000] 6000 6001)
               \<lparr>lastUpdated := Some 7000, version := Some ''2.0''\<rparr>)) \<and>
   getItem (localStorage (final (saveInterviewSession 7000
       (app_session example_settings [example_question 1000] 6000 6001) empty_world))) BACKUP_KEY
     = Some (Encoded ((app_session example_settings [example_question 1000] 6000 6001)
               \<lparr>lastUpdated := Some 7000, version := Some ''2.0''\<rparr>))"
  using save_stamps_version [of 7000 "app_session example_settings [example_question 1000] 6000 6001" empty_world]
  by (simp add: empty_world_def empty_store_def app_session_def)

subsection \<open>Identity-scoped keys and the saved session\<close>

lemma scoped_keys_differ:
  "''interview_'' @ u @ ''_session'' \<noteq> SESSION_KEY"
  "''interview_'' @ u @ ''_backup'' \<noteq> BACKUP_KEY"
  by (simp_all add: SESSION_KEY_def BACKUP_KEY_def)

lemma written_by_save_keys:
  "written_by_save w \<Longrightarrow>
     (\<forall>k. k \<noteq> SESSION_KEY \<longrightarrow> getItem (sessionStorage w) k = None) \<and>
     (\<forall>k. k \<noteq> BACKUP_KEY \<longrightarrow> getItem (localStorage w) k = None)"
proof (induction rule: written_by_save.induct)
  case (fresh w)
  then show ?case by (simp add: getItem_def)
next
  case (saved w now session u w')
  from saved.hyps(2) have "final (saveInterviewSession now session w) = w'" by simp
  with saved.IH show ?case
    using final_save_session_item [of now session w] final_save_local_item [of now session w]
    by auto
qed

lemma checkInterviewState_needs_item:
  "checkInterviewState userId w \<Longrightarrow>
     getItem (sessionStorage w) (''interview_'' @ userId @ ''_session'') \<noteq> None \<or>
     getItem (localStorage w) (''interview_'' @ userId @ ''_backup'') \<noteq> None"
  by (auto simp add: checkInterviewState_def first_truthy_def Let_def split: if_splits option.splits)

text \<open>
  C10. \<open>checkInterviewState\<close> reports a session only if there is an item under
  \<open>interview_{userId}_session\<close> in the session store or under
  \<open>interview_{userId}_backup\<close> in the durable store; \<open>saveInterviewSession\<close> changes
  no item other than \<open>'interviewSession'\<close> in the session store and
  \<open>'interviewSessionBackup'\<close> in the durable store; so in a state whose stores hold
  only what saves have written, \<open>checkInterviewState\<close> is false for every user.
\<close>

theorem checkInterviewState_blind_to_saved_sessions:
  "(checkInterviewState userId w \<longrightarrow>
      getItem (sessionStorage w) (''interview_'' @ userId @ ''_session'') \<noteq> None \<or>
      getItem (localStorage w) (''interview_'' @ userId @ ''_backup'') \<noteq> None) \<and>
   (\<forall>k. k \<noteq> ''interviewSession'' \<longrightarrow>
      getItem (sessionStorage (final (saveInterviewSession now s w))) k = getItem (sessionStorage w) k) \<and>
   (\<forall>k. k \<noteq> ''interviewSessionBackup'' \<longrightarrow>
      getItem (localStorage (final (saveInterviewSession now s w))) k = getItem (localStorage w) k) \<and>
   (written_by_save w \<longrightarrow> \<not> checkInterviewState userId w)"
proof (intro conjI)
  show "checkInterviewState userId w \<longrightarrow>
      getItem (sessionStorage w) (''interview_'' @ userId @ ''_session'') \<noteq> None \<or>
      getItem (localStorage w) (''interview_'' @ userId @ ''_backup'') \<noteq> None"
    using checkInterviewState_needs_item by blast
  show "\<forall>k. k \<noteq> ''interviewSession'' \<longrightarrow>
      getItem (sessionStorage (final (saveInterviewSession now s w))) k = getItem (sessionStorage w) k"
    by (simp add: final_save_session_item SESSION_KEY_def)
  show "\<forall>k. k \<noteq> ''interviewSessionBackup'' \<longrightarrow>
      getItem (localStorage (final (saveInterviewSession now s w))) k = getItem (localStorage w) k"
    by (simp add: final_save_local_item BACKUP_KEY_def)
  show "written_by_save w \<longrightarrow> \<not> checkInterviewState userId w"
  proof
    assume wr: "written_by_save w"
    have a: "getItem (sessionStorage w) (''interview_'' @ userId @ ''_session'') = None"
      using written_by_save_keys [OF wr] scoped_keys_differ(1) [of userId] by blast
    have b: "getItem (localStorage w) (''interview_'' @ userId @ ''_backup'') = None"
      using written_by_save_keys [OF wr] scoped_keys_differ(2) [of userId] by blast
    show "\<not> checkInterviewState userId w"
      using checkInterviewState_needs_item [of userId w] a b by blast
  qed
qed

lemma written_example:
  "written_by_save (final (saveInterviewSession 7000 current_session empty_world))"
proof -
  have "written_by_save empty_world"
    by (rule written_by_save.fresh) (simp_all add: empty_world_def empty_store_def)
  moreover have "saveInterviewSession 7000 current_session empty_world
      = Returns () (final (saveInterviewSession 7000 current_session empty_world))"
    using returned_save [of 7000 current_session empty_world]
    by (cases "saveInterviewSession 7000 current_session empty_world") simp_all
  ultimately show ?thesis by (rule written_by_save.saved)
qed

lemma saved_item_example:
  "getItem (sessionStorage (final (saveInterviewSession 7000 current_session empty_world)))
     ''interviewSession'' = Some (Encoded (sessionWithTimestamp 7000 current_session))"
  by (simp add: final_save_session_item SESSION_KEY_def empty_world_def empty_store_def)

theorem checkInterviewState_blind_to_saved_sessions_witness:
  "written_by_save (final (saveInterviewSession 7000 current_session empty_world)) \<and>
   getItem (sessionStorage (final (saveInterviewSession 7000 current_session empty_world)))
     ''interviewSession'' = Some (Encoded (sessionWithTimestamp 7000 current_session)) \<and>
   \<not> checkInterviewState ''user-a'' (final (saveInterviewSession 7000 current_session empty_world))"
  using checkInterviewState_blind_to_saved_sessions
     [of "''user-a''" "final (saveInterviewSession 7000 current_session empty_world)" 0 current_session]
    written_example saved_item_example
  by blast

subsection \<open>Loading\<close>

lemma fetch_primary:
  "getItem (sessionStorage w) SESSION_KEY = Some (Encoded s) \<Longrightarrow>
   fetch_session w = Returns (Some s) w"
  by (simp add: fetch_session_def parse_saved_def)

lemma fetch_backup:
  "getItem (sessionStorage w) SESSION_KEY = None \<Longrightarrow>
   getItem (localStorage w) BACKUP_KEY = Some (Encoded s) \<Longrightarrow>
   refuses (sessionStorage w) SESSION_KEY (Encoded s) = None \<Longrightarrow>
   fetch_session w =
     Returns (Some s)
       (w\<lparr>console := console w @ [Info ''Session restored from backup''],
          sessionStorage := (sessionStorage w)\<lparr>items := (items (sessionStorage w))(SESSION_KEY \<mapsto> Encoded s)\<rparr>\<rparr>)"
  by (simp add: fetch_session_def parse_saved_def setItem_def console_log_def)

lemma fetch_session_frame:
  "fetch_session w = Returns r w1 \<Longrightarrow>
     localStorage w1 = localStorage w \<and> refuses (sessionStorage w1) = refuses (sessionStorage w)"
  by (auto simp add: fetch_session_def setItem_def console_log_def Let_def
        split: sum.splits option.splits)

lemma load_found:
  "fetch_session w = Returns (Some s) w1 \<Longrightarrow>
   loadInterviewSession now nu ns w =
     (if expired now s
      then Returns None (clearInterviewSession (console_log ''Session expired, clearing data'' w1))
      else if needs_upgrade s
      then Returns (Some (upgradeSessionFormat nu s))
             (console_log ''Session loaded successfully:''
                (final (saveInterviewSession ns (upgradeSessionFormat nu s)
                          (console_log ''Upgrading session to version 2.0'' w1))))
      else Returns (Some s) (console_log ''Session loaded successfully:'' w1))"
proof -
  assume f: "fetch_session w = Returns (Some s) w1"
  show ?thesis
  proof (cases "saveInterviewSession ns (upgradeSessionFormat nu s)
                  (console_log ''Upgrading session to version 2.0'' w1)")
    case (Returns u w2)
    with f show ?thesis
      by (simp add: loadInterviewSession_def load_try_def Let_def)
  next
    case (Throws e w2)
    with returned_save [of ns "upgradeSessionFormat nu s"
        "console_log ''Upgrading session to version 2.0'' w1"]
    show ?thesis by simp
  qed
qed

lemma returned_load_found:
  "fetch_session w = Returns (Some s) w1 \<Longrightarrow>
   returned (loadInterviewSession now nu ns w) =
     (if expired now s then Some None else Some (Some (upgrade nu s)))"
  by (simp add: load_found upgrade_def)

lemma cleared_items:
  "getItem (sessionStorage (clearInterviewSession w)) SESSION_KEY = None"
  "getItem (localStorage (clearInterviewSession w)) BACKUP_KEY = None"
  by (simp_all add: clearInterviewSession_def removeItem_def getItem_def console_log_def)

lemma fetch_world_with_primary:
  "fetch_session (world_with_primary r) = Returns (Some r) (world_with_primary r)"
  by (rule fetch_primary) (simp add: world_with_primary_def getItem_def)




lemma stamp_upgraded:
  "sessionWithTimestamp ns (upgradeSessionFormat nu s) = (upgradeSessionFormat nu s)\<lparr>lastUpdated := Some ns\<rparr>"
  by (simp add: sessionWithTimestamp_def upgradeSessionFormat_def)

text \<open>
  C5, as the claim states it, fails: the load checks the expiry before it upgrades. A
  record of an old format that is older than two hours would not be expired after the
  upgrade, which renews \<open>lastUpdated\<close>; the load discards it all the same.
\<close>

theorem load_upgrade_first_counterexample:
  "fetch_session (world_with_primary legacy_session)
     = Returns (Some legacy_session) (world_with_primary legacy_session) \<and>
   needs_upgrade legacy_session \<and>
   \<not> expired 7205001 (upgrade 7205001 legacy_session) \<and>
   returned (loadInterviewSession 7205001 7205001 7205001 (world_with_primary legacy_session))
     = Some None"
  by (simp add: fetch_world_with_primary returned_load_found [OF fetch_world_with_primary]
        expired_def last_activity_def upgrade_def needs_upgrade_def upgradeSessionFormat_def
        legacy_session_def SESSION_TIMEOUT_def)

text \<open>
  C5, amended. When the load finds a record it first checks the expiry of the record as
  stored: an expired record makes it clear both copies and return null. Otherwise it
  runs the schema upgrade and returns the record, upgraded or not. Without an upgrade the
  load writes nothing; after an upgrade it saves the upgraded record at once, so that,
  where the stores accept the writes, both copies are the returned record with the time
  of that save as \<open>lastUpdated\<close>.
\<close>

theorem load_checks_expiry_then_upgrades:
  assumes "fetch_session w = Returns (Some s) w1"
  shows
    "(expired now s \<longrightarrow>
        returned (loadInterviewSession now nu ns w) = Some None \<and>
        getItem (sessionStorage (final (loadInterviewSession now nu ns w))) SESSION_KEY = None \<and>
        getItem (localStorage (final (loadInterviewSession now nu ns w))) BACKUP_KEY = None) \<and>
     (\<not> expired now s \<longrightarrow>
        returned (loadInterviewSession now nu ns w) = Some (Some (upgrade nu s))) \<and>
     (\<not> expired now s \<and> \<not> needs_upgrade s \<longrightarrow>
        sessionStorage (final (loadInterviewSession now nu ns w)) = sessionStorage w1 \<and>
        localStorage (final (loadInterviewSession now nu ns w)) = localStorage w) \<and>
     (\<not> expired now s \<and> needs_upgrade s \<and>
      refuses (sessionStorage w) SESSION_KEY
        (Encoded ((upgrade nu s)\<lparr>lastUpdated := Some ns\<rparr>)) = None \<and>
      refuses (localStorage w) BACKUP_KEY
        (Encoded ((upgrade nu s)\<lparr>lastUpdated := Some ns\<rparr>)) = None \<longrightarrow>
        getItem (sessionStorage (final (loadInterviewSession now nu ns w))) SESSION_KEY
          = Some (Encoded ((upgrade nu s)\<lparr>lastUpdated := Some ns\<rparr>)) \<and>
        getItem (localStorage (final (loadInterviewSession now nu ns w))) BACKUP_KEY
          = Some (Encoded ((upgrade nu s)\<lparr>lastUpdated := Some ns\<rparr>)))"
proof (intro conjI)
  note fr = fetch_session_frame [OF assms]
  show "expired now s \<longrightarrow>
        returned (loadInterviewSession now nu ns w) = Some None \<and>
        getItem (sessionStorage (final (loadInterviewSession now nu ns w))) SESSION_KEY = None \<and>
        getItem (localStorage (final (loadInterviewSession now nu ns w))) BACKUP_KEY = None"
    by (simp add: load_found [OF assms] cleared_items)
  show "\<not> expired now s \<longrightarrow>
        returned (loadInterviewSession now nu ns w) = Some (Some (upgrade nu s))"
    by (simp add: returned_load_found [OF assms])
  show "\<not> expired now s \<and> \<not> needs_upgrade s \<longrightarrow>
        sessionStorage (final (loadInterviewSession now nu ns w)) = sessionStorage w1 \<and>
        localStorage (final (loadInterviewSession now nu ns w)) = localStorage w"
    using fr by (simp add: load_found [OF assms] console_log_def)
  show "\<not> expired now s \<and> needs_upgrade s \<and>
      refuses (sessionStorage w) SESSION_KEY
        (Encoded ((upgrade nu s)\<lparr>lastUpdated := Some ns\<rparr>)) = None \<and>
      refuses (localStorage w) BACKUP_KEY
        (Encoded ((upgrade nu s)\<lparr>lastUpdated := Some ns\<rparr>)) = None \<longrightarrow>
        getItem (sessionStorage (final (loadInterviewSession now nu ns w))) SESSION_KEY
          = Some (Encoded ((upgrade nu s)\<lparr>lastUpdated := Some ns\<rparr>)) \<and>
        getItem (localStorage (final (loadInterviewSession now nu ns w))) BACKUP_KEY
          = Some (Encoded ((upgrade nu s)\<lparr>lastUpdated := Some ns\<rparr>))"
  proof (intro impI, elim conjE)
    assume "\<not> expired now s" "needs_upgrade s"
      and "refuses (sessionStorage w) SESSION_KEY
             (Encoded ((upgrade nu s)\<lparr>lastUpdated := Some ns\<rparr>)) = None"
      and "refuses (localStorage w) BACKUP_KEY
             (Encoded ((upgrade nu s)\<lparr>lastUpdated := Some ns\<rparr>)) = None"
    with fr show
      "getItem (sessionStorage (final (loadInterviewSession now nu ns w))) SESSION_KEY
          = Some (Encoded ((upgrade nu s)\<lparr>lastUpdated := Some ns\<rparr>)) \<and>
        getItem (localStorage (final (loadInterviewSession now nu ns w))) BACKUP_KEY
          = Some (Encoded ((upgrade nu s)\<lparr>lastUpdated := Some ns\<rparr>))"
      by (simp add: load_found [OF assms] console_log_def final_save_session_item
            final_save_local_item stamp_upgraded upgrade_def)
  qed
qed

theorem load_checks_expiry_then_upgrades_witness:
  "fetch_session (world_with_primary legacy_session)
     = Returns (Some legacy_session) (world_with_primary legacy_session) \<and>
   expired 7205001 legacy_session \<and>
   returned (loadInterviewSession 7205001 7205002 7205003 (world_with_primary legacy_session))
     = Some None \<and>
   \<not> expired 6000 legacy_session \<and> needs_upgrade legacy_session \<and>
   returned (loadInterviewSession 6000 6001 6002 (world_with_primary legacy_session))
     = Some (Some (upgradeSessionFormat 6001 legacy_session)) \<and>
   getItem (localStorage (final (loadInterviewSession 6000 6001 6002
       (world_with_primary legacy_session)))) BACKUP_KEY
     = Some (Encoded ((upgradeSessionFormat 6001 legacy_session)\<lparr>lastUpdated := Some 6002\<rparr>)) \<and>
   \<not> expired 6000 current_session \<and> \<not> needs_upgrade current_session \<and>
   returned (loadInterviewSession 6000 6001 6002 (world_with_primary current_session))
     = Some (Some current_session)"
  using load_checks_expiry_then_upgrades [OF fetch_world_with_primary [of legacy_session],
          of 7205001 7205002 7205003]
    load_checks_expiry_then_upgrades [OF fetch_world_with_primary [of legacy_session],
          of 6000 6001 6002]
    load_checks_expiry_then_upgrades [OF fetch_world_with_primary [of current_session],
          of 6000 6001 6002]
    fetch_world_with_primary [of legacy_session]
  by (simp add: expired_def last_activity_def SESSION_TIMEOUT_def needs_upgrade_def upgrade_def
        legacy_session_def current_session_def world_with_primary_def empty_world_def
        empty_store_def)

lemma load_from_backup:
  assumes "getItem (sessionStorage w) SESSION_KEY = None"
    and "getItem (localStorage w) BACKUP_KEY = Some (Encoded s)"
    and "refuses (sessionStorage w) SESSION_KEY (Encoded s) = None"
    and "\<not> expired now s"
  shows "returned (loadInterviewSession now nu ns w) = Some (Some (upgrade nu s))"
    and "getItem (sessionStorage (final (loadInterviewSession now nu ns w))) SESSION_KEY =
           Some (Encoded
             (if needs_upgrade s \<and>
                 refuses (sessionStorage w) SESSION_KEY
                   (Encoded (sessionWithTimestamp ns (upgradeSessionFormat nu s))) = None
              then sessionWithTimestamp ns (upgradeSessionFormat nu s) else s))"
proof -
  note f = fetch_backup [OF assms(1,2,3)]
  show "returned (loadInterviewSession now nu ns w) = Some (Some (upgrade nu s))"
    using assms(4) by (simp add: returned_load_found [OF f])
  show "getItem (sessionStorage (final (loadInterviewSession now nu ns w))) SESSION_KEY =
           Some (Encoded
             (if needs_upgrade s \<and>
                 refuses (sessionStorage w) SESSION_KEY
                   (Encoded (sessionWithTimestamp ns (upgradeSessionFormat nu s))) = None
              then sessionWithTimestamp ns (upgradeSessionFormat nu s) else s))"
  proof (cases "needs_upgrade s")
    case True
    have "getItem (sessionStorage (final (loadInterviewSession now nu ns w))) SESSION_KEY =
        getItem (sessionStorage (final (saveInterviewSession ns (upgradeSessionFormat nu s)
          (console_log ''Upgrading session to version 2.0''
            (w\<lparr>console := console w @ [Info ''Session restored from backup''],
               sessionStorage := (sessionStorage w)
                 \<lparr>items := (items (sessionStorage w))(SESSION_KEY \<mapsto> Encoded s)\<rparr>\<rparr>))))) SESSION_KEY"
      using assms(4) True by (simp add: load_found [OF f] console_log_def)
    also have "\<dots> = Some (Encoded
             (if refuses (sessionStorage w) SESSION_KEY
                   (Encoded (sessionWithTimestamp ns (upgradeSessionFormat nu s))) = None
              then sessionWithTimestamp ns (upgradeSessionFormat nu s) else s))"
      by (simp add: final_save_session_item console_log_def) (simp add: getItem_def)
    finally show ?thesis using True by simp
  next
    case False
    with assms(4) show ?thesis
      by (simp add: load_found [OF f] console_log_def getItem_def)
  qed
qed

lemma load_from_primary:
  assumes "getItem (sessionStorage w) SESSION_KEY = Some (Encoded p)" and "\<not> expired now p"
  shows "returned (loadInterviewSession now nu ns (w\<lparr>localStorage := backup\<rparr>))
           = Some (Some (upgrade nu p))"
proof -
  from assms(1) have "getItem (sessionStorage (w\<lparr>localStorage := backup\<rparr>)) SESSION_KEY
      = Some (Encoded p)"
    by simp
  from returned_load_found [OF fetch_primary [OF this]] assms(2) show ?thesis
    by simp
qed

lemma load_rewrite_refused:
  assumes "getItem (sessionStorage w) SESSION_KEY = None"
    and "getItem (localStorage w) BACKUP_KEY = Some (Encoded s)"
    and "refuses (sessionStorage w) SESSION_KEY (Encoded s) = Some e"
  shows "loadInterviewSession now nu ns w =
     Returns None
       (clearInterviewSession (console_error ''Failed to load session:'' e
          (console_log ''Session restored from backup'' w)))"
  using assms
  by (simp add: loadInterviewSession_def load_try_def fetch_session_def parse_saved_def
        setItem_def console_log_def)

text \<open>
  C2, as the claim states it, fails. With nothing under the session key and a record
  under the backup key that is not expired, a session store that refuses the write makes
  the load return null, and the backup is gone afterwards. And where the write is
  accepted, a backup record of an old format is returned upgraded, not as it was stored.
\<close>

theorem load_restores_backup_counterexample:
  "getItem (sessionStorage ((world_with_backup current_session)\<lparr>sessionStorage := full_store\<rparr>))
     SESSION_KEY = None \<and>
   getItem (localStorage ((world_with_backup current_session)\<lparr>sessionStorage := full_store\<rparr>))
     BACKUP_KEY = Some (Encoded current_session) \<and>
   \<not> expired 6000 current_session \<and>
   returned (loadInterviewSession 6000 6001 6002
      ((world_with_backup current_session)\<lparr>sessionStorage := full_store\<rparr>)) = Some None \<and>
   getItem (localStorage (final (loadInterviewSession 6000 6001 6002
      ((world_with_backup current_session)\<lparr>sessionStorage := full_store\<rparr>)))) BACKUP_KEY = None \<and>
   getItem (localStorage (world_with_backup legacy_session)) BACKUP_KEY
     = Some (Encoded legacy_session) \<and>
   \<not> expired 6000 legacy_session \<and>
   returned (loadInterviewSession 6000 6001 6002 (world_with_backup legacy_session))
     = Some (Some (upgradeSessionFormat 6001 legacy_session)) \<and>
   upgradeSessionFormat 6001 legacy_session \<noteq> legacy_session"
proof -
  let ?w = "(world_with_backup current_session)\<lparr>sessionStorage := full_store\<rparr>"
  have a: "getItem (sessionStorage ?w) SESSION_KEY = None"
    by (simp add: full_store_def getItem_def)
  have b: "getItem (localStorage ?w) BACKUP_KEY = Some (Encoded current_session)"
    by (simp add: world_with_backup_def empty_world_def empty_store_def getItem_def)
  have c: "refuses (sessionStorage ?w) SESSION_KEY (Encoded current_session)
      = Some (DOMException 22)"
    by (simp add: full_store_def)
  have x: "\<not> expired 6000 current_session" "\<not> expired 6000 legacy_session"
    by (simp_all add: expired_def last_activity_def SESSION_TIMEOUT_def current_session_def
          legacy_session_def)
  note l = load_rewrite_refused [OF a b c, of 6000 6001 6002]
  have a': "getItem (sessionStorage (world_with_backup legacy_session)) SESSION_KEY = None"
    by (simp add: world_with_backup_def empty_world_def empty_store_def getItem_def)
  have b': "getItem (localStorage (world_with_backup legacy_session)) BACKUP_KEY
      = Some (Encoded legacy_session)"
    by (simp add: world_with_backup_def empty_world_def empty_store_def getItem_def)
  have c': "refuses (sessionStorage (world_with_backup legacy_session)) SESSION_KEY
      (Encoded legacy_session) = None"
    by (simp add: world_with_backup_def empty_world_def empty_store_def)
  have n: "needs_upgrade legacy_session"
    by (simp add: needs_upgrade_def legacy_session_def)
  have d: "upgradeSessionFormat 6001 legacy_session \<noteq> legacy_session"
  proof
    assume "upgradeSessionFormat 6001 legacy_session = legacy_session"
    then have "version (upgradeSessionFormat 6001 legacy_session) = version legacy_session"
      by simp
    then show False
      by (simp add: upgradeSessionFormat_def legacy_session_def)
  qed
  from load_from_backup(1) [OF a' b' c' x(2), of 6001 6002] n
  have u: "returned (loadInterviewSession 6000 6001 6002 (world_with_backup legacy_session))
     = Some (Some (upgradeSessionFormat 6001 legacy_session))"
    by (simp add: upgrade_def)
  show ?thesis
    using a b x d u b' by (simp add: l cleared_items)
qed

text \<open>
  C2, amended. If the session store has no item under the session key, the durable store
  holds a record under the backup key that is not expired, and the session store accepts
  the write of that record, then the load returns the record (upgraded if its version
  asks for it, the record itself otherwise) and leaves a record under the session key:
  the one it found or, after an upgrade that was saved, the upgraded one. A load that
  follows while that record is not expired returns it whatever the durable store then
  holds, so it does not depend on the backup.
\<close>

theorem load_restores_backup:
  assumes "getItem (sessionStorage w) SESSION_KEY = None"
    and "getItem (localStorage w) BACKUP_KEY = Some (Encoded s)"
    and "\<not> expired now s"
    and "refuses (sessionStorage w) SESSION_KEY (Encoded s) = None"
  shows
    "(let first_load = loadInterviewSession now nu ns w;
          saved_again = sessionWithTimestamp ns (upgradeSessionFormat nu s);
          primary = (if needs_upgrade s \<and>
                        refuses (sessionStorage w) SESSION_KEY (Encoded saved_again) = None
                     then saved_again else s)
      in returned first_load = Some (Some (upgrade nu s)) \<and>
         getItem (sessionStorage (final first_load)) SESSION_KEY = Some (Encoded primary) \<and>
         (\<not> needs_upgrade s \<longrightarrow> returned first_load = Some (Some s) \<and> primary = s) \<and>
         (\<forall>backup now2 nu2 ns2.
            \<not> expired now2 primary \<longrightarrow>
            returned (loadInterviewSession now2 nu2 ns2 ((final first_load)\<lparr>localStorage := backup\<rparr>))
              = Some (Some (upgrade nu2 primary))))"
proof -
  note b = load_from_backup [OF assms(1,2,4,3), of nu ns]
  show ?thesis
    unfolding Let_def
  proof (intro conjI allI impI)
    show "returned (loadInterviewSession now nu ns w) = Some (Some (upgrade nu s))"
      by (rule b(1))
    show "getItem (sessionStorage (final (loadInterviewSession now nu ns w))) SESSION_KEY =
           Some (Encoded
             (if needs_upgrade s \<and>
                 refuses (sessionStorage w) SESSION_KEY
                   (Encoded (sessionWithTimestamp ns (upgradeSessionFormat nu s))) = None
              then sessionWithTimestamp ns (upgradeSessionFormat nu s) else s))"
      by (rule b(2))
    show "returned (loadInterviewSession now nu ns w) = Some (Some s)" if "\<not> needs_upgrade s"
      using b(1) that by (simp add: upgrade_def)
    show "(if needs_upgrade s \<and>
                 refuses (sessionStorage w) SESSION_KEY
                   (Encoded (sessionWithTimestamp ns (upgradeSessionFormat nu s))) = None
              then sessionWithTimestamp ns (upgradeSessionFormat nu s) else s) = s"
      if "\<not> needs_upgrade s"
      using that by simp
    show "returned (loadInterviewSession now2 nu2 ns2
             ((final (loadInterviewSession now nu ns w))\<lparr>localStorage := backup\<rparr>))
           = Some (Some (upgrade nu2
               (if needs_upgrade s \<and>
                 refuses (sessionStorage w) SESSION_KEY
                   (Encoded (sessionWithTimestamp ns (upgradeSessionFormat nu s))) = None
              then sessionWithTimestamp ns (upgradeSessionFormat nu s) else s)))"
      if "\<not> expired now2
               (if needs_upgrade s \<and>
                 refuses (sessionStorage w) SESSION_KEY
                   (Encoded (sessionWithTimestamp ns (upgradeSessionFormat nu s))) = None
              then sessionWithTimestamp ns (upgradeSessionFormat nu s) else s)"
      for backup now2 nu2 ns2
      by (rule load_from_primary [OF b(2) that])
  qed
qed

theorem load_restores_backup_witness:
  "getItem (sessionStorage (world_with_backup current_session)) SESSION_KEY = None \<and>
   getItem (localStorage (world_with_backup current_session)) BACKUP_KEY
     = Some (Encoded current_session) \<and>
   \<not> expired 6000 current_session \<and>
   refuses (sessionStorage (world_with_backup current_session)) SESSION_KEY
     (Encoded current_session) = None \<and>
   returned (loadInterviewSession 6000 6001 6002 (world_with_backup current_session))
     = Some (Some current_session) \<and>
   getItem (sessionStorage (final (loadInterviewSession 6000 6001 6002
       (world_with_backup current_session)))) SESSION_KEY = Some (Encoded current_session) \<and>
   returned (loadInterviewSession 6100 6101 6102
      ((final (loadInterviewSession 6000 6001 6002 (world_with_backup current_session)))
         \<lparr>localStorage := empty_store\<rparr>)) = Some (Some current_session)"
proof -
  have h1: "getItem (sessionStorage (world_with_backup current_session)) SESSION_KEY = None"
    by (simp add: world_with_backup_def empty_world_def empty_store_def getItem_def)
  have h2: "getItem (localStorage (world_with_backup current_session)) BACKUP_KEY
      = Some (Encoded current_session)"
    by (simp add: world_with_backup_def empty_world_def empty_store_def getItem_def)
  have h3: "\<not> expired t current_session" if "t \<le> 7000" for t
    using that
    by (simp add: expired_def last_activity_def SESSION_TIMEOUT_def current_session_def
          legacy_session_def)
  have h4: "refuses (sessionStorage (world_with_backup current_session)) SESSION_KEY
      (Encoded current_session) = None"
    by (simp add: world_with_backup_def empty_world_def empty_store_def)
  have n: "\<not> needs_upgrade current_session"
    by (simp add: needs_upgrade_def current_session_def)
  note t = load_restores_backup [OF h1 h2 h3 h4, of 6000 6001 6002, simplified Let_def n, simplified]
  from t have t3: "returned (loadInterviewSession 6100 6101 6102
      ((final (loadInterviewSession 6000 6001 6002 (world_with_backup current_session)))
         \<lparr>localStorage := empty_store\<rparr>)) = Some (Some (upgrade 6101 current_session))"
    using h3 [of 6100] by simp
  show ?thesis
    using h1 h2 h3 [of 6000] h4 t t3 n by (simp add: upgrade_def)
qed

subsection \<open>Change of identity\<close>

lemma remove_key_items:
  "getItem (sessionStorage (remove_key k w)) k' = (if k' = k then None else getItem (sessionStorage w) k')"
  "getItem (localStorage (remove_key k w)) k' = (if k' = k then None else getItem (localStorage w) k')"
  by (simp_all add: remove_key_def removeItem_def getItem_def)

lemma remove_key_frame [simp]:
  "currentUserId (remove_key k w) = currentUserId w"
  "refuses_identity (remove_key k w) = refuses_identity w"
  "refuses (localStorage (remove_key k w)) = refuses (localStorage w)"
  "refuses (sessionStorage (remove_key k w)) = refuses (sessionStorage w)"
  by (simp_all add: remove_key_def removeItem_def)

lemma fold_remove_key_items:
  "getItem (sessionStorage (fold remove_key ks w)) k' =
     (if k' \<in> set ks then None else getItem (sessionStorage w) k')"
  "getItem (localStorage (fold remove_key ks w)) k' =
     (if k' \<in> set ks then None else getItem (localStorage w) k')"
  by (induction ks arbitrary: w) (simp_all add: remove_key_items)

lemma fold_remove_key_frame [simp]:
  "currentUserId (fold remove_key ks w) = currentUserId w"
  "refuses_identity (fold remove_key ks w) = refuses_identity w"
  "refuses (localStorage (fold remove_key ks w)) = refuses (localStorage w)"
  by (induction ks arbitrary: w) simp_all

lemma clearUserInterviewData_items:
  "getItem (sessionStorage (clearUserInterviewData u w)) k =
     (if k \<in> set (interviewKeys u) then None else getItem (sessionStorage w) k)"
  "getItem (localStorage (clearUserInterviewData u w)) k =
     (if k \<in> set (interviewKeys u) then None else getItem (localStorage w) k)"
  by (simp_all add: clearUserInterviewData_def console_log_def fold_remove_key_items)

lemma clearUserInterviewData_frame [simp]:
  "currentUserId (clearUserInterviewData u w) = currentUserId w"
  "refuses_identity (clearUserInterviewData u w) = refuses_identity w"
  "refuses (localStorage (clearUserInterviewData u w)) = refuses (localStorage w)"
  by (simp_all add: clearUserInterviewData_def console_log_def)

lemma signed_in_final_items:
  assumes "currentUserId w = Some a" "a \<noteq> []" "b \<noteq> a"
  shows "getItem (sessionStorage (final (signed_in b w))) k =
           (if k \<in> set (interviewKeys a) then None else getItem (sessionStorage w) k)"
    and "getItem (localStorage (final (signed_in b w))) k =
           (if k \<in> set (interviewKeys a) then None else getItem (localStorage w) k)"
  using assms
  by (simp_all add: signed_in_def Let_def console_log_def clearUserInterviewData_items
        split: option.splits)

lemma signed_in_accepted:
  assumes "refuses_identity w b = None"
  shows "returned (signed_in b w) = Some ()" and "currentUserId (final (signed_in b w)) = Some b"
  using assms
  by (simp_all add: signed_in_def Let_def console_log_def split: option.splits)

lemma load_nothing:
  "getItem (sessionStorage w) SESSION_KEY = None \<Longrightarrow>
   getItem (localStorage w) BACKUP_KEY = None \<Longrightarrow>
   loadInterviewSession now nu ns w = Returns None w"
  by (simp add: loadInterviewSession_def load_try_def fetch_session_def parse_saved_def)

lemma recover_nothing:
  "getItem (localStorage w) BACKUP_KEY = None \<Longrightarrow> recoverSession w = Returns None w"
  by (simp add: recoverSession_def recover_try_def)

lemma check_nothing:
  "getItem (sessionStorage w) (''interview_'' @ u @ ''_session'') = None \<Longrightarrow>
   getItem (localStorage w) (''interview_'' @ u @ ''_backup'') = None \<Longrightarrow>
   \<not> checkInterviewState u w"
  using checkInterviewState_needs_item [of u w] by blast

lemma stats_nothing:
  "loadInterviewSession nl nu ns w = Returns None w' \<Longrightarrow>
   getSessionStats nl nu ns now w =
     Returns \<lparr>hasActiveSession = False, sessionAge = Finite 0, stats_questionCount = 0,
               completionRate = Finite 0\<rparr> w'"
  by (simp add: getSessionStats_def)

text \<open>
  C3, as the claim states it, fails. A session that was saved while no identity was
  remembered is still under its key, and is still loaded, after the listener has run for
  the sign-in of \<open>user-b\<close>. And where \<open>user-a\<close> is remembered but the durable store
  refuses the write of the new identity, the listener throws and \<open>user-a\<close> stays the
  remembered identity.
\<close>

theorem signed_in_counterexample:
  "currentUserId (final (saveInterviewSession 7000 current_session empty_world)) = None \<and>
   getItem (sessionStorage (final (signed_in ''user-b''
       (final (saveInterviewSession 7000 current_session empty_world))))) ''interviewSession''
     = Some (Encoded (sessionWithTimestamp 7000 current_session)) \<and>
   returned (loadInterviewSession 7100 7101 7102 (final (signed_in ''user-b''
       (final (saveInterviewSession 7000 current_session empty_world)))))
     = Some (Some (sessionWithTimestamp 7000 current_session)) \<and>
   currentUserId (world_of_user_a\<lparr>refuses_identity := (\<lambda>t. Some (DOMException 22))\<rparr>)
     = Some ''user-a'' \<and>
   returned (signed_in ''user-b''
       (world_of_user_a\<lparr>refuses_identity := (\<lambda>t. Some (DOMException 22))\<rparr>)) = None \<and>
   currentUserId (final (signed_in ''user-b''
       (world_of_user_a\<lparr>refuses_identity := (\<lambda>t. Some (DOMException 22))\<rparr>)))
     = Some ''user-a''"
proof -
  let ?w = "final (saveInterviewSession 7000 current_session empty_world)"
  have c: "currentUserId ?w = None"
    by (simp add: empty_world_def)
  have s: "sessionStorage (final (signed_in ''user-b'' ?w)) = sessionStorage ?w"
    using c by (simp add: signed_in_def Let_def console_log_def split: option.splits)
  have g: "getItem (sessionStorage (final (signed_in ''user-b'' ?w))) SESSION_KEY
     = Some (Encoded (sessionWithTimestamp 7000 current_session))"
    using saved_item_example by (simp add: s SESSION_KEY_def)
  have x: "\<not> expired 7100 (sessionWithTimestamp 7000 current_session)"
    "\<not> needs_upgrade (sessionWithTimestamp 7000 current_session)"
    by (simp_all add: expired_def last_activity_def SESSION_TIMEOUT_def sessionWithTimestamp_def
          needs_upgrade_def)
  from returned_load_found [OF fetch_primary [OF g], of 7100 7101 7102] x
  have l: "returned (loadInterviewSession 7100 7101 7102 (final (signed_in ''user-b'' ?w)))
     = Some (Some (sessionWithTimestamp 7000 current_session))"
    by (simp add: upgrade_def)
  let ?v = "world_of_user_a\<lparr>refuses_identity := (\<lambda>t. Some (DOMException 22))\<rparr>"
  have r: "returned (signed_in ''user-b'' ?v) = None"
    "currentUserId (final (signed_in ''user-b'' ?v)) = Some ''user-a''"
    by (simp_all add: signed_in_def Let_def console_log_def world_of_user_a_def)
  show ?thesis
    using c g l r by (simp add: SESSION_KEY_def world_of_user_a_def)
qed

text \<open>
  C3, amended. Let \<open>a\<close> be the remembered identity, a non-empty id under the key of the
  remembered identity, and let the listener run for the sign-in of another identity
  \<open>b\<close>. Afterwards neither store has an item under \<open>interview_a_session\<close>,
  \<open>interview_a_backup\<close>, \<open>interviewSession\<close> or \<open>interviewSessionBackup\<close>, so that the
  load, the recovery and the statistics find no session and \<open>checkInterviewState\<close> is
  false for \<open>a\<close>; and where the durable store accepts the write of the identity, \<open>b\<close> is
  the remembered identity.
\<close>

theorem signed_in_isolates_previous_identity:
  assumes "currentUserId w = Some a" and "a \<noteq> []" and "b \<noteq> a"
  shows
    "getItem (sessionStorage (final (signed_in b w))) (''interview_'' @ a @ ''_session'') = None \<and>
     getItem (sessionStorage (final (signed_in b w))) (''interview_'' @ a @ ''_backup'') = None \<and>
     getItem (sessionStorage (final (signed_in b w))) ''interviewSession'' = None \<and>
     getItem (sessionStorage (final (signed_in b w))) ''interviewSessionBackup'' = None \<and>
     getItem (localStorage (final (signed_in b w))) (''interview_'' @ a @ ''_session'') = None \<and>
     getItem (localStorage (final (signed_in b w))) (''interview_'' @ a @ ''_backup'') = None \<and>
     getItem (localStorage (final (signed_in b w))) ''interviewSession'' = None \<and>
     getItem (localStorage (final (signed_in b w))) ''interviewSessionBackup'' = None \<and>
     returned (loadInterviewSession now nu ns (final (signed_in b w))) = Some None \<and>
     returned (recoverSession (final (signed_in b w))) = Some None \<and>
     returned (getSessionStats now nu ns now' (final (signed_in b w)))
       = Some \<lparr>hasActiveSession = False, sessionAge = Finite 0, stats_questionCount = 0,
                 completionRate = Finite 0\<rparr> \<and>
     \<not> checkInterviewState a (final (signed_in b w)) \<and>
     (refuses_identity w b = None \<longrightarrow>
        returned (signed_in b w) = Some () \<and> currentUserId (final (signed_in b w)) = Some b)"
proof -
  note i = signed_in_final_items [OF assms]
  have s1: "getItem (sessionStorage (final (signed_in b w))) (''interview_'' @ a @ ''_session'') = None"
    and s2: "getItem (sessionStorage (final (signed_in b w))) (''interview_'' @ a @ ''_backup'') = None"
    and s3: "getItem (sessionStorage (final (signed_in b w))) ''interviewSession'' = None"
    and s4: "getItem (sessionStorage (final (signed_in b w))) ''interviewSessionBackup'' = None"
    and l1: "getItem (localStorage (final (signed_in b w))) (''interview_'' @ a @ ''_session'') = None"
    and l2: "getItem (localStorage (final (signed_in b w))) (''interview_'' @ a @ ''_backup'') = None"
    and l3: "getItem (localStorage (final (signed_in b w))) ''interviewSession'' = None"
    and l4: "getItem (localStorage (final (signed_in b w))) ''interviewSessionBackup'' = None"
    by (simp_all add: i interviewKeys_def)
  have ld: "loadInterviewSession now nu ns (final (signed_in b w))
      = Returns None (final (signed_in b w))"
    using s3 l4 by (intro load_nothing) (simp_all add: SESSION_KEY_def BACKUP_KEY_def)
  have rc: "recoverSession (final (signed_in b w)) = Returns None (final (signed_in b w))"
    using l4 by (intro recover_nothing) (simp add: BACKUP_KEY_def)
  have st: "returned (getSessionStats now nu ns now' (final (signed_in b w)))
       = Some \<lparr>hasActiveSession = False, sessionAge = Finite 0, stats_questionCount = 0,
                 completionRate = Finite 0\<rparr>"
    by (simp add: stats_nothing [OF ld])
  have ch: "\<not> checkInterviewState a (final (signed_in b w))"
    using s1 l2 by (rule check_nothing)
  show ?thesis
    using s1 s2 s3 s4 l1 l2 l3 l4 st ch signed_in_accepted [of w b]
    by (simp add: ld rc)
qed

theorem signed_in_isolates_previous_identity_witness:
  "currentUserId world_of_user_a = Some ''user-a'' \<and>
   getItem (sessionStorage world_of_user_a) ''interviewSession'' = Some (Encoded current_session) \<and>
   getItem (localStorage world_of_user_a) ''interview_user-a_backup''
     = Some (Encoded current_session) \<and>
   refuses_identity world_of_user_a ''user-b'' = None \<and>
   getItem (sessionStorage (final (signed_in ''user-b'' world_of_user_a))) ''interviewSession''
     = None \<and>
   getItem (localStorage (final (signed_in ''user-b'' world_of_user_a)))
     ''interview_user-a_backup'' = None \<and>
   returned (loadInterviewSession 6000 6001 6002 (final (signed_in ''user-b'' world_of_user_a)))
     = Some None \<and>
   currentUserId (final (signed_in ''user-b'' world_of_user_a)) = Some ''user-b''"
proof -
  have c: "currentUserId world_of_user_a = Some ''user-a''"
    by (simp add: world_of_user_a_def)
  have r: "refuses_identity world_of_user_a ''user-b'' = None"
    by (simp add: world_of_user_a_def empty_world_def)
  have g: "getItem (sessionStorage world_of_user_a) ''interviewSession''
        = Some (Encoded current_session)"
    "getItem (localStorage world_of_user_a) ''interview_user-a_backup''
        = Some (Encoded current_session)"
    by (simp_all add: world_of_user_a_def getItem_def empty_store_def)
  have "''user-a'' \<noteq> []" and "''user-b'' \<noteq> ''user-a''"
    by simp_all
  from signed_in_isolates_previous_identity [OF c this, of 6000 6001 6002 0] c r g
  show ?thesis by simp
qed

subsection \<open>Statistics\<close>

lemma load_never_throws: "returned (loadInterviewSession nl nu ns w) \<noteq> None"
  by (simp add: loadInterviewSession_def split: completion.splits)

lemma stats_by_load:
  "returned (loadInterviewSession nl nu ns w) = Some r \<Longrightarrow>
   returned (getSessionStats nl nu ns now w) =
     (case r of
        None \<Rightarrow>
          Some \<lparr>hasActiveSession = False, sessionAge = Finite 0, stats_questionCount = 0,
                 completionRate = Finite 0\<rparr>
      | Some s \<Rightarrow>
          (case questions s of
             None \<Rightarrow> None
           | Some qs \<Rightarrow>
               (case settings s of
                  None \<Rightarrow> None
                | Some st \<Rightarrow>
                    Some \<lparr>hasActiveSession = True,
                           sessionAge = (case startTime s of
                                           None \<Rightarrow> NaN
                                         | Some t \<Rightarrow> Finite (of_int (now - t))),
                           stats_questionCount = length qs,
                           completionRate =
                             js_mul (js_div (Finite (of_nat (length qs)))
                                            (Finite (of_int (questionCount st))))
                                    (Finite 100)\<rparr>)))"
  by (cases "loadInterviewSession nl nu ns w")
     (auto simp add: getSessionStats_def Let_def split: option.splits
        simp del: js_div.simps js_mul.simps)

lemma stats_throws:
  "returned (loadInterviewSession nl nu ns w) = Some (Some s) \<Longrightarrow>
   questions s = None \<or> settings s = None \<Longrightarrow>
   thrown (getSessionStats nl nu ns now w) = Some TypeError"
  by (cases "loadInterviewSession nl nu ns w")
     (auto simp add: getSessionStats_def Let_def split: option.splits
        simp del: js_div.simps js_mul.simps)

lemma rate_two_of_five: "js_mul (js_div (Finite 2) (Finite 5)) (Finite 100) = Finite 40"
  by code_simp

lemma rate_one_of_three:
  "js_mul (js_div (Finite 1) (Finite 3)) (Finite 100) = Finite (2345624805922133 / 70368744177664)"
  by code_simp

lemma claimed_one_of_three:
  "js_div (js_mul (Finite 100) (Finite 1)) (Finite 3) = Finite (4691249611844267 / 140737488355328)"
  by code_simp

lemma load_world_with_primary:
  "returned (loadInterviewSession nl nu ns (world_with_primary r)) =
     (if expired nl r then Some None else Some (Some (upgrade nu r)))"
  by (rule returned_load_found [OF fetch_world_with_primary])

text \<open>
  C8, as the claim states it, fails. With the text \<open>{}\<close> under the session key the load
  returns an object, upgraded, that has no \<open>questions\<close>, and \<open>getSessionStats\<close>, which
  has no handler, throws a \<open>TypeError\<close>. And for one question out of three the rate that
  the code computes, \<open>(1 / 3) * 100\<close>, is the double below \<open>100 / 3\<close>, while
  \<open>100 * 1 / 3\<close> is the double above it.
\<close>

theorem getSessionStats_counterexample:
  "getItem (sessionStorage (world_with_primary empty_object)) SESSION_KEY
     = Some (Encoded empty_object) \<and>
   returned (loadInterviewSession 6000 6001 6002 (world_with_primary empty_object))
     = Some (Some (upgradeSessionFormat 6001 empty_object)) \<and>
   questions (upgradeSessionFormat 6001 empty_object) = None \<and>
   returned (getSessionStats 6000 6001 6002 6003 (world_with_primary empty_object)) = None \<and>
   thrown (getSessionStats 6000 6001 6002 6003 (world_with_primary empty_object))
     = Some TypeError \<and>
   returned (getSessionStats 6000 6001 6002 6003 (world_with_primary one_of_three))
     = Some \<lparr>hasActiveSession = True, sessionAge = Finite 5003, stats_questionCount = 1,
               completionRate = Finite (2345624805922133 / 70368744177664)\<rparr> \<and>
   js_div (js_mul (Finite 100) (Finite 1)) (Finite 3)
     = Finite (4691249611844267 / 140737488355328) \<and>
   (2345624805922133 / 70368744177664 :: rat) \<noteq> 4691249611844267 / 140737488355328"
proof -
  have g: "getItem (sessionStorage (world_with_primary empty_object)) SESSION_KEY
     = Some (Encoded empty_object)"
    by (simp add: world_with_primary_def getItem_def)
  have e: "returned (loadInterviewSession 6000 6001 6002 (world_with_primary empty_object))
     = Some (Some (upgradeSessionFormat 6001 empty_object))"
    by (simp add: load_world_with_primary expired_def last_activity_def upgrade_def
          needs_upgrade_def empty_object_def)
  have q: "questions (upgradeSessionFormat 6001 empty_object) = None"
    by (simp add: upgradeSessionFormat_def empty_object_def)
  have t: "thrown (getSessionStats 6000 6001 6002 6003 (world_with_primary empty_object))
     = Some TypeError"
    by (rule stats_throws [OF e disjI1 [OF q]])
  then have n: "returned (getSessionStats 6000 6001 6002 6003 (world_with_primary empty_object))
     = None"
    by (cases "getSessionStats 6000 6001 6002 6003 (world_with_primary empty_object)") simp_all
  have l: "returned (loadInterviewSession 6000 6001 6002 (world_with_primary one_of_three))
      = Some (Some one_of_three)"
    by (simp add: load_world_with_primary expired_def last_activity_def SESSION_TIMEOUT_def
          upgrade_def needs_upgrade_def one_of_three_def current_session_def legacy_session_def)
  have f: "questions one_of_three = Some [example_question 1000]"
    "settings one_of_three = Some (example_settings\<lparr>questionCount := 3\<rparr>)"
    "startTime one_of_three = Some 1000"
    by (simp_all add: one_of_three_def current_session_def legacy_session_def)
  have "returned (getSessionStats 6000 6001 6002 6003 (world_with_primary one_of_three))
     = Some \<lparr>hasActiveSession = True, sessionAge = Finite 5003, stats_questionCount = 1,
               completionRate = js_mul (js_div (Finite 1) (Finite 3)) (Finite 100)\<rparr>"
    by (simp add: stats_by_load [OF l] f del: js_div.simps js_mul.simps)
  then show ?thesis
    using g e q t n
    by (simp add: rate_one_of_three claimed_one_of_three del: js_div.simps js_mul.simps)
qed

text \<open>
  C8, amended. When the load yields no session, \<open>getSessionStats\<close> returns
  \<open>hasActiveSession = false\<close> and zero for the age, the count and the rate. When the load
  yields a session that has a \<open>startTime\<close>, \<open>questions\<close> and \<open>settings\<close>, it returns
  \<open>hasActiveSession = true\<close>, the time of the call minus \<open>startTime\<close> as the age, the
  number of questions as the count, and as the rate the double
  \<open>(questionCount / settings.questionCount) * 100\<close>, the quotient being rounded before
  the product is formed and rounded. For two questions out of five the rate is exactly 40.
\<close>

theorem getSessionStats_total:
  "(returned (loadInterviewSession nl nu ns w) = Some None \<longrightarrow>
      returned (getSessionStats nl nu ns now w)
        = Some \<lparr>hasActiveSession = False, sessionAge = Finite 0, stats_questionCount = 0,
                  completionRate = Finite 0\<rparr>) \<and>
   (\<forall>s t0 qs st.
      returned (loadInterviewSession nl nu ns w) = Some (Some s) \<and>
      startTime s = Some t0 \<and> questions s = Some qs \<and> settings s = Some st \<longrightarrow>
      returned (getSessionStats nl nu ns now w)
        = Some \<lparr>hasActiveSession = True, sessionAge = Finite (of_int (now - t0)),
                  stats_questionCount = length qs,
                  completionRate =
                    js_mul (js_div (Finite (of_nat (length qs)))
                                   (Finite (of_int (questionCount st))))
                           (Finite 100)\<rparr> \<and>
      (length qs = 2 \<and> questionCount st = 5 \<longrightarrow>
         returned (getSessionStats nl nu ns now w)
           = Some \<lparr>hasActiveSession = True, sessionAge = Finite (of_int (now - t0)),
                     stats_questionCount = 2, completionRate = Finite 40\<rparr>))"
proof (intro conjI allI impI)
  show "returned (getSessionStats nl nu ns now w)
        = Some \<lparr>hasActiveSession = False, sessionAge = Finite 0, stats_questionCount = 0,
                  completionRate = Finite 0\<rparr>"
    if "returned (loadInterviewSession nl nu ns w) = Some None"
    by (simp add: stats_by_load [OF that])
  fix s t0 qs st
  assume a: "returned (loadInterviewSession nl nu ns w) = Some (Some s) \<and>
      startTime s = Some t0 \<and> questions s = Some qs \<and> settings s = Some st"
  then have l: "returned (loadInterviewSession nl nu ns w) = Some (Some s)"
    by simp
  from a show g: "returned (getSessionStats nl nu ns now w)
        = Some \<lparr>hasActiveSession = True, sessionAge = Finite (of_int (now - t0)),
                  stats_questionCount = length qs,
                  completionRate =
                    js_mul (js_div (Finite (of_nat (length qs)))
                                   (Finite (of_int (questionCount st))))
                           (Finite 100)\<rparr>"
    by (simp add: stats_by_load [OF l] del: js_div.simps js_mul.simps)
  assume "length qs = 2 \<and> questionCount st = 5"
  then show "returned (getSessionStats nl nu ns now w)
           = Some \<lparr>hasActiveSession = True, sessionAge = Finite (of_int (now - t0)),
                     stats_questionCount = 2, completionRate = Finite 40\<rparr>"
    using rate_two_of_five by (simp add: g del: js_div.simps js_mul.simps)
qed

theorem getSessionStats_total_witness:
  "returned (loadInterviewSession 7100 7101 7102 empty_world) = Some None \<and>
   returned (getSessionStats 7100 7101 7102 7103 empty_world)
     = Some \<lparr>hasActiveSession = False, sessionAge = Finite 0, stats_questionCount = 0,
               completionRate = Finite 0\<rparr> \<and>
   returned (loadInterviewSession 7100 7101 7102
       (final (saveInterviewSession 7000 current_session empty_world)))
     = Some (Some (sessionWithTimestamp 7000 current_session)) \<and>
   startTime (sessionWithTimestamp 7000 current_session) = Some 1000 \<and>
   questions (sessionWithTimestamp 7000 current_session)
     = Some [example_question 1000, example_question 2000] \<and>
   settings (sessionWithTimestamp 7000 current_session) = Some example_settings \<and>
   questionCount example_settings = 5 \<and>
   returned (getSessionStats 7100 7101 7102 7103
       (final (saveInterviewSession 7000 current_session empty_world)))
     = Some \<lparr>hasActiveSession = True, sessionAge = Finite 6103, stats_questionCount = 2,
               completionRate = Finite 40\<rparr>"
proof -
  have e: "returned (loadInterviewSession 7100 7101 7102 empty_world) = Some None"
    by (simp add: load_nothing empty_world_def empty_store_def getItem_def)
  have "getItem (sessionStorage (final (saveInterviewSession 7000 current_session empty_world)))
      SESSION_KEY = Some (Encoded (sessionWithTimestamp 7000 current_session))"
    using saved_item_example by (simp add: SESSION_KEY_def)
  from returned_load_found [OF fetch_primary [OF this], of 7100 7101 7102]
  have l: "returned (loadInterviewSession 7100 7101 7102
       (final (saveInterviewSession 7000 current_session empty_world)))
     = Some (Some (sessionWithTimestamp 7000 current_session))"
    by (simp add: expired_def last_activity_def SESSION_TIMEOUT_def upgrade_def
          needs_upgrade_def sessionWithTimestamp_def)
  have q: "startTime (sessionWithTimestamp 7000 current_session) = Some 1000"
    "questions (sessionWithTimestamp 7000 current_session)
       = Some [example_question 1000, example_question 2000]"
    "settings (sessionWithTimestamp 7000 current_session) = Some example_settings"
    "questionCount example_settings = 5"
    by (simp_all add: sessionWithTimestamp_def current_session_def legacy_session_def
          example_settings_def)
  from getSessionStats_total [of 7100 7101 7102 empty_world 7103] e
    getSessionStats_total [of 7100 7101 7102
      "final (saveInterviewSession 7000 current_session empty_world)" 7103] l q
  show ?thesis by (simp add: rate_two_of_five del: js_div.simps js_mul.simps)
qed

end
